theory Spec2Isabelle
  imports Main "HOL-Library.Word"
begin

section \<open>Python values that the program handles\<close>

text \<open>
  The program (\<^verbatim>\<open>figma_gpt_app.py\<close>) works on the values that \<^verbatim>\<open>json.loads\<close> and
  \<^verbatim>\<open>Response.json()\<close> produce: \<^verbatim>\<open>None\<close>, booleans, integers, floats, strings, lists
  and dicts with string keys.  A float is kept as its IEEE-754 binary64 bit pattern: the
  program never computes with one, it only tests truthiness and passes it on.  A dict is
  an association list; a lookup takes the first binding of a key.
\<close>

datatype json =
    JNull
  | JBool bool
  | JInt int
  | JFloat "64 word"
  | JStr string
  | JArr "json list"
  | JObj "(string \<times> json) list"

text \<open>The response object of the \<^verbatim>\<open>requests\<close> library, as far as the program reads it.\<close>

record http_response =
  status_code :: int
  body :: string

text \<open>Every exception that the program can let escape is a value.\<close>

datatype py_error =
    AttributeError
  | TypeError
  | IndexError
  | KeyError
  | ValueError
  | RecursionError
  | JSONDecodeError
  | ConnectionError
  | HTTPError http_response

subsection \<open>Builtin operations, with the exceptions they raise\<close>

text \<open>The binding of a key in a dict; no other value binds any key.\<close>

definition lookup :: "json \<Rightarrow> string \<Rightarrow> json option" where
  "lookup x key = (case x of JObj kvs \<Rightarrow> map_of kvs key | _ \<Rightarrow> None)"

definition is_dict :: "json \<Rightarrow> bool" where
  "is_dict x = (case x of JObj _ \<Rightarrow> True | _ \<Rightarrow> False)"

text \<open>\<^verbatim>\<open>x.get(key, default)\<close>: only a dict has the method.\<close>

definition py_get :: "json \<Rightarrow> string \<Rightarrow> json \<Rightarrow> py_error + json" where
  "py_get x key dflt =
     (case x of
        JObj kvs \<Rightarrow> (case map_of kvs key of Some v \<Rightarrow> Inr v | None \<Rightarrow> Inr dflt)
      | _ \<Rightarrow> Inl AttributeError)"

text \<open>
  \<^verbatim>\<open>for item in x\<close>: a list yields its elements, a dict its keys (each once), a string
  its characters as strings of length one; nothing else is iterable.
\<close>

definition py_iter :: "json \<Rightarrow> py_error + json list" where
  "py_iter x =
     (case x of
        JArr xs \<Rightarrow> Inr xs
      | JObj kvs \<Rightarrow> Inr (map JStr (remdups (map fst kvs)))
      | JStr s \<Rightarrow> Inr (map (\<lambda>c. JStr [c]) s)
      | _ \<Rightarrow> Inl TypeError)"

text \<open>Truthiness, as \<^verbatim>\<open>if name:\<close> tests it.\<close>

definition truthy :: "json \<Rightarrow> bool" where
  "truthy x =
     (case x of
        JNull \<Rightarrow> False
      | JBool b \<Rightarrow> b
      | JInt i \<Rightarrow> i \<noteq> 0
      | JFloat w \<Rightarrow> w \<noteq> 0 \<and> w \<noteq> 0x8000000000000000
      | JStr s \<Rightarrow> s \<noteq> []
      | JArr xs \<Rightarrow> xs \<noteq> []
      | JObj kvs \<Rightarrow> kvs \<noteq> [])"

section \<open>The two remote services\<close>

text \<open>
  A request as the program hands it to \<^verbatim>\<open>requests.get\<close> or \<^verbatim>\<open>requests.post\<close>.
\<close>

datatype http_verb = GET | POST

record http_request =
  verb :: http_verb
  url :: string
  headers :: "(string \<times> string) list"
  data :: "string option"

text \<open>
  What lies outside the program: the standard library's \<^verbatim>\<open>json.loads\<close> and
  \<^verbatim>\<open>json.dumps\<close>, the remote services behind \<^verbatim>\<open>requests\<close> (the answer may depend on
  the requests made so far, and a connection may fail with an exception), and the text
  that formatting gives for a value that is not a string.
\<close>

record py_env =
  json_loads :: "string \<Rightarrow> py_error + json"
  json_dumps :: "json \<Rightarrow> string"
  http_send :: "http_request list \<Rightarrow> http_request \<Rightarrow> py_error + http_response"
  format_value :: "json \<Rightarrow> string"

text \<open>
  The state of the network is the list of the requests issued so far: every call of
  \<^verbatim>\<open>requests.get\<close> or \<^verbatim>\<open>requests.post\<close> appends one.
\<close>

definition requests_get ::
  "py_env \<Rightarrow> string \<Rightarrow> (string \<times> string) list \<Rightarrow> http_request list
   \<Rightarrow> (py_error + http_response) \<times> http_request list" where
  "requests_get env u hs log =
     (let rq = \<lparr>verb = GET, url = u, headers = hs, data = None\<rparr>
      in (http_send env log rq, log @ [rq]))"

definition requests_post ::
  "py_env \<Rightarrow> string \<Rightarrow> (string \<times> string) list \<Rightarrow> string \<Rightarrow> http_request list
   \<Rightarrow> (py_error + http_response) \<times> http_request list" where
  "requests_post env u hs d log =
     (let rq = \<lparr>verb = POST, url = u, headers = hs, data = Some d\<rparr>
      in (http_send env log rq, log @ [rq]))"

text \<open>
  \<^verbatim>\<open>Response.raise_for_status()\<close> raises \<^verbatim>\<open>HTTPError\<close>, which carries the response,
  for a client error (400 to 499) and for a server error (500 to 599), and returns
  otherwise.  \<^verbatim>\<open>Response.ok\<close> is defined in the library by calling it: false when it
  raises, true otherwise.  So \<^verbatim>\<open>ok\<close> does not test for a status of 200, nor for one
  between 200 and 299: it is true for every status outside 400 to 599.
\<close>

definition raise_for_status :: "http_response \<Rightarrow> py_error + unit" where
  "raise_for_status resp =
     (if 400 \<le> status_code resp \<and> status_code resp < 600 then Inl (HTTPError resp)
      else Inr ())"

definition ok :: "http_response \<Rightarrow> bool" where
  "ok resp = (case raise_for_status resp of Inl _ \<Rightarrow> False | Inr _ \<Rightarrow> True)"

text \<open>\<^verbatim>\<open>Response.json()\<close> parses the body of the response.\<close>

definition response_json :: "py_env \<Rightarrow> http_response \<Rightarrow> py_error + json" where
  "response_json env resp = json_loads env (body resp)"

text \<open>The lines \<^verbatim>\<open>if not resp.ok: resp.raise_for_status()\<close>, shared by both calls.\<close>

definition check_status :: "http_response \<Rightarrow> py_error + unit" where
  "check_status resp = (if \<not> ok resp then raise_for_status resp else Inr ())"

section \<open>The design-source client\<close>

record FigmaClient =
  token :: string
  base_url :: string

definition rstrip :: "char \<Rightarrow> string \<Rightarrow> string" where
  "rstrip c s = rev (dropWhile (\<lambda>x. x = c) (rev s))"

definition default_base_url :: string where
  "default_base_url = ''https://api.figma.com/v1''"

definition FigmaClient_init :: "string \<Rightarrow> string \<Rightarrow> FigmaClient" where
  "FigmaClient_init tok base = \<lparr>token = tok, base_url = rstrip CHR ''/'' base\<rparr>"

definition FigmaClient_headers :: "FigmaClient \<Rightarrow> (string \<times> string) list" where
  "FigmaClient_headers self = [(''X-Figma-Token'', token self)]"

definition get_file ::
  "py_env \<Rightarrow> FigmaClient \<Rightarrow> string \<Rightarrow> http_request list
   \<Rightarrow> (py_error + json) \<times> http_request list" where
  "get_file env self file_key log =
     (let u = base_url self @ ''/files/'' @ file_key
      in case requests_get env u (FigmaClient_headers self) log of
           (Inl e, log') \<Rightarrow> (Inl e, log')
         | (Inr resp, log') \<Rightarrow>
             (case check_status resp of
                Inl e \<Rightarrow> (Inl e, log')
              | Inr _ \<Rightarrow> (response_json env resp, log')))"

section \<open>The frame extractor\<close>

text \<open>
  The inner loop of \<^verbatim>\<open>extract_frame_names\<close> over the nodes of one page; \<open>frames\<close> is
  the list that the source appends to.
\<close>

fun scan_nodes :: "json list \<Rightarrow> json list \<Rightarrow> py_error + json list" where
  "scan_nodes frames [] = Inr frames"
| "scan_nodes frames (node # rest) =
     (case py_get node ''type'' JNull of
        Inl e \<Rightarrow> Inl e
      | Inr t \<Rightarrow>
          if t = JStr ''FRAME'' then
            (case py_get node ''name'' JNull of
               Inl e \<Rightarrow> Inl e
             | Inr name \<Rightarrow>
                 if truthy name then scan_nodes (frames @ [name]) rest
                 else scan_nodes frames rest)
          else scan_nodes frames rest)"

text \<open>The outer loop over the pages.\<close>

fun scan_pages :: "json list \<Rightarrow> json list \<Rightarrow> py_error + json list" where
  "scan_pages frames [] = Inr frames"
| "scan_pages frames (page # rest) =
     (case py_get page ''children'' (JArr []) of
        Inl e \<Rightarrow> Inl e
      | Inr cs \<Rightarrow>
          (case py_iter cs of
             Inl e \<Rightarrow> Inl e
           | Inr nodes \<Rightarrow>
               (case scan_nodes frames nodes of
                  Inl e \<Rightarrow> Inl e
                | Inr frames' \<Rightarrow> scan_pages frames' rest)))"

definition extract_frame_names :: "json \<Rightarrow> py_error + json list" where
  "extract_frame_names file_data =
     (case py_get file_data ''document'' (JObj []) of
        Inl e \<Rightarrow> Inl e
      | Inr document \<Rightarrow>
          (case py_get document ''children'' (JArr []) of
             Inl e \<Rightarrow> Inl e
           | Inr pages \<Rightarrow>
               (case py_iter pages of
                  Inl e \<Rightarrow> Inl e
                | Inr ps \<Rightarrow> scan_pages [] ps)))"

section \<open>The feature generator\<close>

text \<open>\<^verbatim>\<open>sep.join(xs)\<close> on strings.\<close>

fun join :: "string \<Rightarrow> string list \<Rightarrow> string" where
  "join sep [] = []"
| "join sep [x] = x"
| "join sep (x # y # ys) = x @ sep @ join sep (y # ys)"

definition bullet :: "string \<Rightarrow> string" where
  "bullet name = ''- '' @ name"

text \<open>The fixed text in front of the bullet list.\<close>

definition framing_text :: string where
  "framing_text =
     ''The following is a list of design sections extracted from a Figma '' @
     ''file.  For each section, suggest a concise feature title and a short '' @
     ''description (one sentence) suitable for inclusion in a product '' @
     ''requirements document.  Respond with a JSON array where each element '' @
     ''has 'title' and 'description' fields.\<newline>''"

definition build_prompt :: "string \<Rightarrow> string" where
  "build_prompt frames_formatted =
     framing_text @ ''\<newline>Design sections:\<newline>'' @ frames_formatted @ ''\<newline>''"

definition system_message :: json where
  "system_message =
     JObj [(''role'', JStr ''system''), (''content'', JStr ''You are a helpful product manager.'')]"

definition user_message :: "string \<Rightarrow> json" where
  "user_message prompt = JObj [(''role'', JStr ''user''), (''content'', JStr prompt)]"

definition completion_headers :: "string \<Rightarrow> (string \<times> string) list" where
  "completion_headers openai_api_key =
     [(''Authorization'', ''Bearer '' @ openai_api_key),
      (''Content-Type'', ''application/json'')]"

definition completion_body :: "string \<Rightarrow> 64 word \<Rightarrow> int \<Rightarrow> json \<Rightarrow> json" where
  "completion_body model temperature max_tokens messages =
     JObj [(''model'', JStr model),
           (''temperature'', JFloat temperature),
           (''max_tokens'', JInt max_tokens),
           (''messages'', messages),
           (''n'', JInt 1)]"

definition completion_url :: string where
  "completion_url = ''https://api.openai.com/v1/chat/completions''"

text \<open>\<^verbatim>\<open>x[0]\<close>: the first element of a list or string; a dict from JSON has no key 0.\<close>

definition py_first :: "json \<Rightarrow> py_error + json" where
  "py_first x =
     (case x of
        JArr [] \<Rightarrow> Inl IndexError
      | JArr (y # _) \<Rightarrow> Inr y
      | JStr [] \<Rightarrow> Inl IndexError
      | JStr (c # _) \<Rightarrow> Inr (JStr [c])
      | JObj _ \<Rightarrow> Inl KeyError
      | _ \<Rightarrow> Inl TypeError)"

text \<open>
  The content of the first choice:
  \<^verbatim>\<open>data.get("choices", [{}])[0].get("message", {}).get("content", "")\<close>.
\<close>

definition reply_content :: "json \<Rightarrow> py_error + json" where
  "reply_content reply =
     (case py_get reply ''choices'' (JArr [JObj []]) of
        Inl e \<Rightarrow> Inl e
      | Inr choices \<Rightarrow>
          (case py_first choices of
             Inl e \<Rightarrow> Inl e
           | Inr choice \<Rightarrow>
               (case py_get choice ''message'' (JObj []) of
                  Inl e \<Rightarrow> Inl e
                | Inr message \<Rightarrow> py_get message ''content'' (JStr []))))"

text \<open>\<^verbatim>\<open>json.loads(content)\<close>: the argument must be a string.\<close>

definition py_json_loads :: "py_env \<Rightarrow> json \<Rightarrow> py_error + json" where
  "py_json_loads env content =
     (case content of JStr s \<Rightarrow> json_loads env s | _ \<Rightarrow> Inl TypeError)"

text \<open>
  One record of the result; \<open>item\<close> is a dict, so neither \<^verbatim>\<open>get\<close> can raise.
\<close>

definition feature_of :: "json \<Rightarrow> json" where
  "feature_of item =
     JObj [(''title'', case lookup item ''title'' of Some v \<Rightarrow> v | None \<Rightarrow> JStr ''Untitled Feature''),
           (''description'', case lookup item ''description'' of Some v \<Rightarrow> v | None \<Rightarrow> JStr [])]"

text \<open>The body of the \<^verbatim>\<open>try\<close> block: parse, then the list comprehension.\<close>

definition parse_features :: "py_env \<Rightarrow> json \<Rightarrow> py_error + json list" where
  "parse_features env content =
     (case py_json_loads env content of
        Inl e \<Rightarrow> Inl e
      | Inr features \<Rightarrow>
          (case py_iter features of
             Inl e \<Rightarrow> Inl e
           | Inr items \<Rightarrow> Inr (map feature_of (filter is_dict items))))"

definition model_response :: "json \<Rightarrow> json" where
  "model_response content = JObj [(''title'', JStr ''Model response''), (''description'', content)]"

text \<open>The \<^verbatim>\<open>try\<close> statement: only \<^verbatim>\<open>json.JSONDecodeError\<close> is caught.\<close>

definition features_or_fallback :: "py_env \<Rightarrow> json \<Rightarrow> py_error + json list" where
  "features_or_fallback env content =
     (case parse_features env content of
        Inl e \<Rightarrow> if e = JSONDecodeError then Inr [model_response content] else Inl e
      | Inr fs \<Rightarrow> Inr fs)"

definition generate_features_from_figma ::
  "py_env \<Rightarrow> string list \<Rightarrow> string \<Rightarrow> string \<Rightarrow> 64 word \<Rightarrow> int \<Rightarrow> http_request list
   \<Rightarrow> (py_error + json list) \<times> http_request list" where
  "generate_features_from_figma env frame_names openai_api_key model temperature max_tokens log =
     (if frame_names = [] then (Inr [], log)
      else
        let frames_formatted = join ''\<newline>'' (map bullet frame_names);
            prompt = build_prompt frames_formatted;
            messages = JArr [system_message, user_message prompt];
            hs = completion_headers openai_api_key;
            b = completion_body model temperature max_tokens messages
        in case requests_post env completion_url hs (json_dumps env b) log of
             (Inl e, log') \<Rightarrow> (Inl e, log')
           | (Inr resp, log') \<Rightarrow>
               (case check_status resp of
                  Inl e \<Rightarrow> (Inl e, log')
                | Inr _ \<Rightarrow>
                    (case response_json env resp of
                       Inl e \<Rightarrow> (Inl e, log')
                     | Inr reply \<Rightarrow>
                         (case reply_content reply of
                            Inl e \<Rightarrow> (Inl e, log')
                          | Inr content \<Rightarrow> (features_or_fallback env content, log')))))"

text \<open>The defaults of the keyword arguments: \<^verbatim>\<open>"gpt-4"\<close>, \<^verbatim>\<open>0.2\<close> and \<^verbatim>\<open>512\<close>.\<close>

definition default_model :: string where
  "default_model = ''gpt-4''"

definition default_temperature :: "64 word" where
  "default_temperature = 0x3FC999999999999A"

definition default_max_tokens :: int where
  "default_max_tokens = 512"

section \<open>The command line\<close>

text \<open>Truthiness of what \<^verbatim>\<open>os.environ.get\<close> returns: \<^verbatim>\<open>None\<close> and the empty string are false.\<close>

definition is_set :: "string option \<Rightarrow> bool" where
  "is_set v = (case v of None \<Rightarrow> False | Some s \<Rightarrow> s \<noteq> [])"

definition guidance :: string where
  "guidance =
     ''FIGMA_TOKEN, FIGMA_FILE_KEY and OPENAI_API_KEY environment variables '' @
     ''must be set to run this example.''"

text \<open>The decimal digits of a length.\<close>

fun show_nat :: "nat \<Rightarrow> string" where
  "show_nat n =
     (if n < 10 then [char_of (48 + n)]
      else show_nat (n div 10) @ [char_of (48 + n mod 10)])"

text \<open>\<^verbatim>\<open>', '.join(frame_names)\<close> accepts strings only.\<close>

fun strs_of :: "json list \<Rightarrow> py_error + string list" where
  "strs_of [] = Inr []"
| "strs_of (x # xs) =
     (case x of
        JStr s \<Rightarrow> (case strs_of xs of Inl e \<Rightarrow> Inl e | Inr ss \<Rightarrow> Inr (s # ss))
      | _ \<Rightarrow> Inl TypeError)"

text \<open>\<^verbatim>\<open>x[key]\<close> with a string key.\<close>

definition py_getitem :: "json \<Rightarrow> string \<Rightarrow> py_error + json" where
  "py_getitem x key =
     (case x of
        JObj kvs \<Rightarrow> (case map_of kvs key of Some v \<Rightarrow> Inr v | None \<Rightarrow> Inl KeyError)
      | _ \<Rightarrow> Inl TypeError)"

text \<open>A value inside an f-string: a string stands for itself.\<close>

definition py_str :: "py_env \<Rightarrow> json \<Rightarrow> string" where
  "py_str env v = (case v of JStr s \<Rightarrow> s | _ \<Rightarrow> format_value env v)"

text \<open>The final loop; \<open>out\<close> is the list of the lines printed so far.\<close>

fun print_features :: "py_env \<Rightarrow> string list \<Rightarrow> json list \<Rightarrow> (py_error + unit) \<times> string list" where
  "print_features env out [] = (Inr (), out)"
| "print_features env out (feature # rest) =
     (case py_getitem feature ''title'' of
        Inl e \<Rightarrow> (Inl e, out)
      | Inr t \<Rightarrow>
          (case py_getitem feature ''description'' of
             Inl e \<Rightarrow> (Inl e, out)
           | Inr d \<Rightarrow>
               print_features env (out @ [''- '' @ py_str env t @ '': '' @ py_str env d]) rest))"

text \<open>
  The text between the count and the names; the hyphen of the source is U+2011, three
  bytes in UTF-8.
\<close>

definition found_line :: "nat \<Rightarrow> string \<Rightarrow> string" where
  "found_line n joined =
     ''Found '' @ show_nat n @ '' top'' @ [CHR 0xE2, CHR 0x80, CHR 0x91] @
     ''level frame(s): '' @ joined"

text \<open>What \<^verbatim>\<open>main\<close> does once the three variables are known to be set.\<close>

definition main_run ::
  "py_env \<Rightarrow> string \<Rightarrow> string \<Rightarrow> string \<Rightarrow> string list \<times> http_request list
   \<Rightarrow> (py_error + unit) \<times> string list \<times> http_request list" where
  "main_run env figma_token figma_file_key openai_key st =
     (let out = fst st; log = snd st;
          figma_client = FigmaClient_init figma_token default_base_url
      in (case get_file env figma_client figma_file_key log of
            (Inl e, log1) \<Rightarrow> (Inl e, out, log1)
          | (Inr file_data, log1) \<Rightarrow>
              (case extract_frame_names file_data of
                 Inl e \<Rightarrow> (Inl e, out, log1)
               | Inr frame_names \<Rightarrow>
                   if frame_names = [] then
                     (Inr (), out @ [''No frames were found in the Figma document.''], log1)
                   else
                     (case strs_of frame_names of
                        Inl e \<Rightarrow> (Inl e, out, log1)
                      | Inr names \<Rightarrow>
                          (let out1 = out @ [found_line (length frame_names) (join '', '' names)]
                           in (case generate_features_from_figma env names openai_key
                                      default_model default_temperature default_max_tokens log1 of
                                 (Inl e, log2) \<Rightarrow> (Inl e, out1, log2)
                               | (Inr features, log2) \<Rightarrow>
                                   (let out2 = out1 @ [''\<newline>Generated feature suggestions:\<newline>'']
                                    in (case print_features env out2 features of
                                          (r, out3) \<Rightarrow> (r, out3, log2)))))))))"

definition main ::
  "py_env \<Rightarrow> (string \<Rightarrow> string option) \<Rightarrow> string list \<times> http_request list
   \<Rightarrow> (py_error + unit) \<times> string list \<times> http_request list" where
  "main env environ st =
     (let figma_token = environ ''FIGMA_TOKEN'';
          figma_file_key = environ ''FIGMA_FILE_KEY'';
          openai_key = environ ''OPENAI_API_KEY''
      in if \<not> (is_set figma_token \<and> is_set figma_file_key \<and> is_set openai_key)
         then (Inr (), fst st @ [guidance], snd st)
         else main_run env (the figma_token) (the figma_file_key) (the openai_key) st)"

section \<open>What the extractor is meant to compute\<close>

text \<open>
  The description of the result in terms of the tree: the immediate children of a node
  are the elements of its \<^verbatim>\<open>children\<close> array (none when the key is absent), the nodes at
  depth two are the children of the children of the root, and a named frame is a node
  whose type tag is \<^verbatim>\<open>FRAME\<close> and whose name is non-empty.
\<close>

definition children_of :: "json \<Rightarrow> json list" where
  "children_of x = (case lookup x ''children'' of Some (JArr cs) \<Rightarrow> cs | _ \<Rightarrow> [])"

definition root_of :: "json \<Rightarrow> json" where
  "root_of file_data = (case lookup file_data ''document'' of Some d \<Rightarrow> d | None \<Rightarrow> JObj [])"

definition depth_two_nodes :: "json \<Rightarrow> json list" where
  "depth_two_nodes file_data = concat (map children_of (children_of (root_of file_data)))"

definition is_named_frame :: "json \<Rightarrow> bool" where
  "is_named_frame node =
     (lookup node ''type'' = Some (JStr ''FRAME'') \<and>
      (case lookup node ''name'' of Some v \<Rightarrow> truthy v | None \<Rightarrow> False))"

definition name_of :: "json \<Rightarrow> json" where
  "name_of node = (case lookup node ''name'' of Some v \<Rightarrow> v | None \<Rightarrow> JNull)"

definition named_frames :: "json \<Rightarrow> json list" where
  "named_frames file_data = map name_of (filter is_named_frame (depth_two_nodes file_data))"

text \<open>
  The shape of a document (section 6 of the specification): a mapping whose
  \<^verbatim>\<open>document\<close>, when present, is a mapping; a \<^verbatim>\<open>children\<close> entry, when present, is an
  array; pages and the nodes below them are mappings.  No key is required, and the values
  of \<^verbatim>\<open>type\<close> and \<^verbatim>\<open>name\<close> are not restricted.
\<close>

definition children_ok :: "json \<Rightarrow> bool" where
  "children_ok x = (case lookup x ''children'' of None \<Rightarrow> True | Some (JArr _) \<Rightarrow> True | Some _ \<Rightarrow> False)"

definition wf_page :: "json \<Rightarrow> bool" where
  "wf_page page = (is_dict page \<and> children_ok page \<and> list_all is_dict (children_of page))"

definition wf_document :: "json \<Rightarrow> bool" where
  "wf_document file_data =
     (is_dict file_data \<and> is_dict (root_of file_data) \<and> children_ok (root_of file_data) \<and>
      list_all wf_page (children_of (root_of file_data)))"

section \<open>The requests on the wire, and example inputs\<close>

text \<open>The one request that \<^verbatim>\<open>get_file\<close> issues.\<close>

definition figma_request :: "FigmaClient \<Rightarrow> string \<Rightarrow> http_request" where
  "figma_request self file_key =
     \<lparr>verb = GET, url = base_url self @ ''/files/'' @ file_key,
      headers = [(''X-Figma-Token'', token self)], data = None\<rparr>"

text \<open>The one request that the generator issues for a non-empty list of names.\<close>

definition completion_request ::
  "py_env \<Rightarrow> string list \<Rightarrow> string \<Rightarrow> string \<Rightarrow> 64 word \<Rightarrow> int \<Rightarrow> http_request" where
  "completion_request env frame_names openai_api_key model temperature max_tokens =
     \<lparr>verb = POST, url = completion_url, headers = completion_headers openai_api_key,
      data = Some (json_dumps env
        (completion_body model temperature max_tokens
          (JArr [system_message,
                 user_message (build_prompt (join ''\<newline>'' (map bullet frame_names)))])))\<rparr>"

text \<open>The example document of the specification.\<close>

definition login_document :: json where
  "login_document =
     JObj [(''document'', JObj [(''children'', JArr [
       JObj [(''children'', JArr [
         JObj [(''type'', JStr ''FRAME''), (''name'', JStr ''Login'')],
         JObj [(''type'', JStr ''GROUP''), (''name'', JStr ''Ignored'')],
         JObj [(''type'', JStr ''FRAME''), (''name'', JStr ''Login'')]])]])])]"

text \<open>A document without pages, and one whose only nodes are not named frames.\<close>

definition blank_document :: json where
  "blank_document = JObj [(''document'', JObj [(''children'', JArr [])])]"

definition groups_document :: json where
  "groups_document =
     JObj [(''document'', JObj [(''children'', JArr [
       JObj [(''children'', JArr [
         JObj [(''type'', JStr ''GROUP''), (''name'', JStr ''Header'')],
         JObj [(''type'', JStr ''FRAME''), (''name'', JStr [])]])]])])]"

text \<open>A page without children, and nodes that lack a type, a name, or both.\<close>

definition bare_page :: json where
  "bare_page = JObj [(''name'', JStr ''Page 1'')]"

definition untyped_node :: json where
  "untyped_node = JObj [(''name'', JStr ''Orphan'')]"

definition unnamed_node :: json where
  "unnamed_node = JObj [(''type'', JStr ''FRAME'')]"

definition home_node :: json where
  "home_node = JObj [(''type'', JStr ''FRAME''), (''name'', JStr ''Home'')]"

definition sparse_document :: json where
  "sparse_document =
     JObj [(''document'', JObj [(''children'', JArr [
       bare_page,
       JObj [(''children'', JArr [untyped_node, unnamed_node, JObj [], home_node])]])])]"

text \<open>
  An environment for examples: the service answers every request with one status and one
  body, and \<^verbatim>\<open>json.loads\<close> knows the texts of a table and rejects every other text.
\<close>

definition canned_loads :: "(string \<times> json) list \<Rightarrow> string \<Rightarrow> py_error + json" where
  "canned_loads table s = (case map_of table s of Some v \<Rightarrow> Inr v | None \<Rightarrow> Inl JSONDecodeError)"

definition canned_env :: "(string \<times> json) list \<Rightarrow> int \<Rightarrow> string \<Rightarrow> py_env" where
  "canned_env table st b =
     \<lparr>json_loads = canned_loads table,
      json_dumps = (\<lambda>j. ''{}''),
      http_send = (\<lambda>log rq. Inr \<lparr>status_code = st, body = b\<rparr>),
      format_value = (\<lambda>v. ''?'')\<rparr>"

text \<open>A reply of the completion service whose first choice has the given content.\<close>

definition reply_with :: "json \<Rightarrow> json" where
  "reply_with content =
     JObj [(''choices'', JArr [JObj [(''message'', JObj [(''content'', content)])]])]"

definition login_content :: string where
  \<open>login_content = ''[{"title":"Login flow"}]''\<close>

text \<open>The bodies of three replies, as the service would send them.\<close>

definition not_json_reply :: string where
  \<open>not_json_reply = ''{"choices":[{"message":{"content":"not json"}}]}''\<close>

definition number_reply :: string where
  \<open>number_reply = ''{"choices":[{"message":{"content":"42"}}]}''\<close>

definition escaped_quote :: string where
  "escaped_quote = [CHR 0x5C, CHR 0x22]"

definition login_reply :: string where
  \<open>login_reply =
     ''{"choices":[{"message":{"content":"[{'' @ escaped_quote @ ''title'' @ escaped_quote @
     '':'' @ escaped_quote @ ''Login flow'' @ escaped_quote @ ''}]"}}]}''\<close>

definition example_table :: "(string \<times> json) list" where
  \<open>example_table =
     [(not_json_reply, reply_with (JStr ''not json'')),
      (login_reply, reply_with (JStr login_content)),
      (number_reply, reply_with (JStr ''42'')),
      (''{}'', JObj []),
      (login_content, JArr [JObj [(''title'', JStr ''Login flow'')]]),
      (''42'', JInt 42)]\<close>

text \<open>
  Texts that are not JSON and that \<^verbatim>\<open>json.loads\<close> of CPython accepts all the same: it
  reads \<^verbatim>\<open>NaN\<close> as the float not-a-number (bit pattern \<^verbatim>\<open>7FF8000000000000\<close>) and does not
  raise.
\<close>

definition nan_reply :: string where
  \<open>nan_reply = ''{"choices":[{"message":{"content":"NaN"}}]}''\<close>

definition nan_list_reply :: string where
  \<open>nan_list_reply = ''{"choices":[{"message":{"content":"[NaN]"}}]}''\<close>

definition lenient_table :: "(string \<times> json) list" where
  "lenient_table =
     [(nan_reply, reply_with (JStr ''NaN'')),
      (nan_list_reply, reply_with (JStr ''[NaN]'')),
      (''NaN'', JFloat 0x7FF8000000000000),
      (''[NaN]'', JArr [JFloat 0x7FF8000000000000])]"

text \<open>
  A serialiser in the format of \<^verbatim>\<open>json.dumps\<close>, for an environment in which the body of a
  request can be read: items separated by a comma and a space, keys by a colon and a
  space, strings in double quotes with the quote, the backslash and the line feed
  escaped.  The float 0.2 is written in decimal, any other float by its bit pattern.
\<close>

definition escape_char :: "char \<Rightarrow> string" where
  "escape_char c =
     (if c = CHR 0x22 then [CHR 0x5C, CHR 0x22]
      else if c = CHR 0x5C then [CHR 0x5C, CHR 0x5C]
      else if c = CHR 0x0A then [CHR 0x5C, CHR ''n'']
      else [c])"

definition quoted :: "string \<Rightarrow> string" where
  "quoted s = [CHR 0x22] @ concat (map escape_char s) @ [CHR 0x22]"

definition show_int :: "int \<Rightarrow> string" where
  "show_int i = (if i < 0 then ''-'' @ show_nat (nat (- i)) else show_nat (nat i))"

definition show_float :: "64 word \<Rightarrow> string" where
  "show_float w = (if w = 0x3FC999999999999A then ''0.2'' else ''float:'' @ show_nat (unat w))"

fun render_json :: "json \<Rightarrow> string" where
  "render_json JNull = ''null''"
| "render_json (JBool b) = (if b then ''true'' else ''false'')"
| "render_json (JInt i) = show_int i"
| "render_json (JFloat w) = show_float w"
| "render_json (JStr s) = quoted s"
| "render_json (JArr xs) = ''['' @ join '', '' (map render_json xs) @ '']''"
| "render_json (JObj kvs) =
     ''{'' @ join '', '' (map (\<lambda>kv. quoted (fst kv) @ '': '' @ render_json (snd kv)) kvs) @ ''}''"

definition wire_env :: py_env where
  "wire_env = (canned_env example_table 200 login_reply)\<lparr>json_dumps := render_json\<rparr>"

text \<open>A line feed as it stands inside a serialised string.\<close>

definition escaped_newline :: string where
  "escaped_newline = [CHR 0x5C, CHR ''n'']"

text \<open>The environment of a process in which only the design-source token is set.\<close>

definition token_only :: "string \<Rightarrow> string option" where
  "token_only var = (if var = ''FIGMA_TOKEN'' then Some ''figd_token'' else None)"

section \<open>Properties of the frame extractor\<close>

lemma py_get_dict: "is_dict x \<Longrightarrow> py_get x key dflt = Inr (case lookup x key of Some v \<Rightarrow> v | None \<Rightarrow> dflt)"
  by (cases x) (simp_all add: is_dict_def py_get_def lookup_def split: option.splits)

lemma py_iter_children:
  "is_dict x \<Longrightarrow> children_ok x \<Longrightarrow>
   (case py_get x ''children'' (JArr []) of Inl e \<Rightarrow> Inl e | Inr cs \<Rightarrow> py_iter cs) = Inr (children_of x)"
  by (auto simp: py_get_dict children_ok_def children_of_def py_iter_def split: option.splits json.splits)

lemma scan_nodes_dicts:
  "list_all is_dict nodes \<Longrightarrow>
   scan_nodes frames nodes = Inr (frames @ map name_of (filter is_named_frame nodes))"
proof (induction nodes arbitrary: frames)
  case Nil
  show ?case by simp
next
  case (Cons node rest)
  from Cons.prems have d: "is_dict node" and r: "list_all is_dict rest" by simp_all
  show ?case
    using d Cons.IH [OF r]
    by (cases node) (auto simp: py_get_def is_dict_def is_named_frame_def name_of_def lookup_def truthy_def
        split: option.splits)
qed

lemma scan_pages_wf:
  "list_all wf_page pages \<Longrightarrow>
   scan_pages frames pages =
     Inr (frames @ map name_of (filter is_named_frame (concat (map children_of pages))))"
proof (induction pages arbitrary: frames)
  case Nil
  show ?case by simp
next
  case (Cons page rest)
  from Cons.prems have p: "wf_page page" and r: "list_all wf_page rest" by simp_all
  from p have it: "(case py_get page ''children'' (JArr []) of Inl e \<Rightarrow> Inl e | Inr cs \<Rightarrow> py_iter cs)
      = Inr (children_of page)"
    by (simp add: wf_page_def py_iter_children)
  from p have ns: "scan_nodes frames (children_of page)
      = Inr (frames @ map name_of (filter is_named_frame (children_of page)))"
    by (simp add: wf_page_def scan_nodes_dicts)
  show ?case
    using it ns Cons.IH [OF r]
    by (auto split: sum.splits)
qed

lemma extract_frame_names_wf:
  assumes "wf_document file_data"
  shows "extract_frame_names file_data = Inr (named_frames file_data)"
proof -
  from assms have d: "is_dict file_data" and rd: "is_dict (root_of file_data)"
    and ck: "children_ok (root_of file_data)"
    and ps: "list_all wf_page (children_of (root_of file_data))"
    by (simp_all add: wf_document_def)
  have g: "py_get file_data ''document'' (JObj []) = Inr (root_of file_data)"
    using d by (simp add: py_get_dict root_of_def)
  show ?thesis
    using g py_iter_children [OF rd ck] scan_pages_wf [OF ps, of "[]"]
    by (auto simp: extract_frame_names_def named_frames_def depth_two_nodes_def split: sum.splits)
qed

lemmas doc_defs = wf_document_def wf_page_def root_of_def children_of_def children_ok_def
  lookup_def is_dict_def depth_two_nodes_def is_named_frame_def name_of_def truthy_def

text \<open>
  Claim C1.  On every document of the expected shape, \<^verbatim>\<open>extract_frame_names\<close> returns
  exactly the names of the nodes at depth two (the children of the root's children) whose
  type tag is \<^verbatim>\<open>FRAME\<close> and whose name is non-empty, in the order of the document.  The
  result is the image of the filtered node list, so a name occurs as often as nodes carry
  it, and no node of another type or at another depth contributes.
\<close>

theorem extract_frame_names_depth_two:
  assumes "wf_document file_data"
  shows "extract_frame_names file_data =
           Inr (map name_of (filter is_named_frame (depth_two_nodes file_data)))"
  using extract_frame_names_wf [OF assms] by (simp add: named_frames_def)

text \<open>The example of the specification: both \<^verbatim>\<open>Login\<close> frames are reported.\<close>

theorem extract_frame_names_login:
  "wf_document login_document \<and>
   extract_frame_names login_document = Inr [JStr ''Login'', JStr ''Login'']"
proof -
  have wf: "wf_document login_document"
    by (simp add: login_document_def doc_defs)
  have "map name_of (filter is_named_frame (depth_two_nodes login_document))
          = [JStr ''Login'', JStr ''Login'']"
    by (simp add: login_document_def doc_defs)
  with extract_frame_names_depth_two [OF wf] wf show ?thesis by simp
qed

text \<open>
  Claim C6.  A document of the expected shape that has no pages, or none of whose
  depth-two nodes is a frame with a non-empty name, yields the empty list.
\<close>

theorem extract_frame_names_nothing_found:
  assumes "wf_document file_data"
    and "children_of (root_of file_data) = [] \<or>
         filter is_named_frame (depth_two_nodes file_data) = []"
  shows "extract_frame_names file_data = Inr []"
proof -
  from assms(2) have "filter is_named_frame (depth_two_nodes file_data) = []"
    by (auto simp: depth_two_nodes_def)
  with extract_frame_names_wf [OF assms(1)] show ?thesis
    by (simp add: named_frames_def)
qed

theorem extract_frame_names_nothing_found_examples:
  "extract_frame_names blank_document = Inr [] \<and>
   extract_frame_names groups_document = Inr []"
proof -
  have w1: "wf_document blank_document" by (simp add: blank_document_def doc_defs)
  have p1: "children_of (root_of blank_document) = [] \<or>
         filter is_named_frame (depth_two_nodes blank_document) = []"
    by (simp add: blank_document_def doc_defs)
  have w2: "wf_document groups_document" by (simp add: groups_document_def doc_defs)
  have p2: "children_of (root_of groups_document) = [] \<or>
         filter is_named_frame (depth_two_nodes groups_document) = []"
    by (simp add: groups_document_def doc_defs)
  from extract_frame_names_nothing_found [OF w1 p1] extract_frame_names_nothing_found [OF w2 p2]
  show ?thesis by simp
qed

subsection \<open>Missing keys\<close>

lemma scan_nodes_skip:
  assumes "is_dict node" and "\<not> is_named_frame node"
  shows "scan_nodes frames (before @ node # rest) = scan_nodes frames (before @ rest)"
proof (induction before arbitrary: frames)
  case Nil
  from assms show ?case
    by (cases node) (auto simp: py_get_def is_dict_def is_named_frame_def lookup_def truthy_def
        split: option.splits)
next
  case (Cons x before)
  then show ?case by (simp split: sum.splits)
qed

lemma scan_pages_skip:
  assumes "is_dict page" and "lookup page ''children'' = None"
  shows "scan_pages frames (before @ page # rest) = scan_pages frames (before @ rest)"
proof (induction before arbitrary: frames)
  case Nil
  from assms show ?case
    by (cases page) (auto simp: py_get_def is_dict_def lookup_def py_iter_def)
next
  case (Cons x before)
  then show ?case by (simp split: sum.splits)
qed

lemma extract_no_document:
  assumes "is_dict file_data" and "lookup file_data ''document'' = None"
  shows "extract_frame_names file_data = Inr []"
  using assms
  by (cases file_data) (auto simp: extract_frame_names_def py_get_def is_dict_def lookup_def py_iter_def)

lemma extract_no_children:
  assumes "is_dict file_data" and "is_dict (root_of file_data)"
    and "lookup (root_of file_data) ''children'' = None"
  shows "extract_frame_names file_data = Inr []"
proof -
  have g: "py_get file_data ''document'' (JObj []) = Inr (root_of file_data)"
    using assms(1) by (simp add: py_get_dict root_of_def)
  have c: "py_get (root_of file_data) ''children'' (JArr []) = Inr (JArr [])"
    using assms(2,3) by (simp add: py_get_dict)
  show ?thesis
    by (simp add: extract_frame_names_def g c py_iter_def)
qed

text \<open>
  Claim C10.  A missing key never makes \<^verbatim>\<open>extract_frame_names\<close> raise.  Without
  \<^verbatim>\<open>document\<close>, or with a document that has no \<^verbatim>\<open>children\<close>, the result is empty; a
  page without \<^verbatim>\<open>children\<close> counts as a page without nodes, wherever it stands; a node
  that lacks \<^verbatim>\<open>type\<close> or \<^verbatim>\<open>name\<close>, or whose name is empty, is skipped, wherever it
  stands; and on every document of the expected shape, in which no key is required, the
  function returns a list.
\<close>

theorem extract_frame_names_missing_keys:
  "(is_dict file_data \<and> lookup file_data ''document'' = None
      \<longrightarrow> extract_frame_names file_data = Inr []) \<and>
   (is_dict file_data \<and> is_dict (root_of file_data) \<and>
    lookup (root_of file_data) ''children'' = None
      \<longrightarrow> extract_frame_names file_data = Inr []) \<and>
   (is_dict page \<and> lookup page ''children'' = None
      \<longrightarrow> scan_pages frames (pages_before @ page # pages_after)
            = scan_pages frames (pages_before @ pages_after)) \<and>
   (is_dict node \<and>
    (lookup node ''type'' = None \<or> lookup node ''name'' = None \<or>
     lookup node ''name'' = Some (JStr []))
      \<longrightarrow> scan_nodes frames (nodes_before @ node # nodes_after)
            = scan_nodes frames (nodes_before @ nodes_after)) \<and>
   (wf_document file_data \<longrightarrow> (\<exists>names. extract_frame_names file_data = Inr names))"
proof -
  have "\<not> is_named_frame node"
    if "lookup node ''type'' = None \<or> lookup node ''name'' = None \<or>
        lookup node ''name'' = Some (JStr [])"
    using that by (auto simp: is_named_frame_def truthy_def)
  then show ?thesis
    using extract_no_document extract_no_children scan_pages_skip scan_nodes_skip
      extract_frame_names_wf
    by blast
qed

theorem extract_frame_names_sparse:
  "extract_frame_names (JObj []) = Inr [] \<and>
   extract_frame_names (JObj [(''document'', JObj [])]) = Inr [] \<and>
   scan_pages [] [bare_page, JObj [(''children'', JArr [home_node])]]
     = scan_pages [] [JObj [(''children'', JArr [home_node])]] \<and>
   scan_nodes [] [home_node, untyped_node, home_node] = scan_nodes [] [home_node, home_node] \<and>
   scan_nodes [] [unnamed_node, home_node] = scan_nodes [] [home_node] \<and>
   wf_document sparse_document \<and>
   extract_frame_names sparse_document = Inr [JStr ''Home'']"
proof -
  have a: "is_dict (JObj []) \<and> lookup (JObj []) ''document'' = None"
    by (simp add: doc_defs)
  have b: "is_dict (JObj [(''document'', JObj [])]) \<and>
           is_dict (root_of (JObj [(''document'', JObj [])])) \<and>
           lookup (root_of (JObj [(''document'', JObj [])])) ''children'' = None"
    by (simp add: doc_defs)
  have c: "is_dict bare_page \<and> lookup bare_page ''children'' = None"
    by (simp add: bare_page_def doc_defs)
  have d: "is_dict untyped_node \<and>
    (lookup untyped_node ''type'' = None \<or> lookup untyped_node ''name'' = None \<or>
     lookup untyped_node ''name'' = Some (JStr []))"
    by (simp add: untyped_node_def doc_defs)
  have e: "is_dict unnamed_node \<and>
    (lookup unnamed_node ''type'' = None \<or> lookup unnamed_node ''name'' = None \<or>
     lookup unnamed_node ''name'' = Some (JStr []))"
    by (simp add: unnamed_node_def doc_defs)
  have w: "wf_document sparse_document"
    by (simp add: sparse_document_def bare_page_def untyped_node_def unnamed_node_def
        home_node_def doc_defs)
  note t = extract_frame_names_missing_keys
  from t [of "JObj []"] a have 1: "extract_frame_names (JObj []) = Inr []" by blast
  from t [of "JObj [(''document'', JObj [])]"] b
  have 2: "extract_frame_names (JObj [(''document'', JObj [])]) = Inr []" by blast
  from t [of _ bare_page "[]" "[]" "[JObj [(''children'', JArr [home_node])]]"] c
  have 3: "scan_pages [] [bare_page, JObj [(''children'', JArr [home_node])]]
     = scan_pages [] [JObj [(''children'', JArr [home_node])]]" by simp
  from t [of _ _ "[]" _ _ untyped_node "[home_node]" "[home_node]"] d
  have 4: "scan_nodes [] [home_node, untyped_node, home_node] = scan_nodes [] [home_node, home_node]"
    by simp
  from t [of _ _ "[]" _ _ unnamed_node "[]" "[home_node]"] e
  have 5: "scan_nodes [] [unnamed_node, home_node] = scan_nodes [] [home_node]"
    by simp
  from t [of sparse_document] w
  obtain names where n: "extract_frame_names sparse_document = Inr names"
    by blast
  have "names = [JStr ''Home'']"
    using n
    by (simp add: extract_frame_names_def sparse_document_def bare_page_def untyped_node_def
        unnamed_node_def home_node_def py_get_def py_iter_def truthy_def)
  with n have 6: "extract_frame_names sparse_document = Inr [JStr ''Home'']" by simp
  from 1 2 3 4 5 w 6 show ?thesis by simp
qed

section \<open>Properties of the feature generator\<close>

lemma join_lines: "xs \<noteq> [] \<Longrightarrow> join sep xs @ sep = concat (map (\<lambda>x. x @ sep) xs)"
  by (induction sep xs rule: join.induct) simp_all

lemma generate_sends:
  assumes "frame_names \<noteq> []"
  shows "generate_features_from_figma env frame_names openai_api_key model temperature max_tokens log =
     ((case http_send env log
              (completion_request env frame_names openai_api_key model temperature max_tokens) of
         Inl e \<Rightarrow> Inl e
       | Inr resp \<Rightarrow>
           (case check_status resp of
              Inl e \<Rightarrow> Inl e
            | Inr _ \<Rightarrow>
                (case response_json env resp of
                   Inl e \<Rightarrow> Inl e
                 | Inr reply \<Rightarrow>
                     (case reply_content reply of
                        Inl e \<Rightarrow> Inl e
                      | Inr content \<Rightarrow> features_or_fallback env content)))),
      log @ [completion_request env frame_names openai_api_key model temperature max_tokens])"
  using assms
  by (simp add: generate_features_from_figma_def requests_post_def completion_request_def Let_def
      split: sum.splits)

lemma check_status_ok: "ok resp \<Longrightarrow> check_status resp = Inr ()"
  by (simp add: check_status_def)

lemma check_status_error:
  "400 \<le> status_code resp \<Longrightarrow> status_code resp < 600 \<Longrightarrow> check_status resp = Inl (HTTPError resp)"
  by (simp add: check_status_def ok_def raise_for_status_def)

lemma ok_iff: "ok resp = (\<not> (400 \<le> status_code resp \<and> status_code resp < 600))"
  by (simp add: ok_def raise_for_status_def)

lemma generate_content:
  assumes "frame_names \<noteq> []"
    and "http_send env log
           (completion_request env frame_names openai_api_key model temperature max_tokens) = Inr resp"
    and "ok resp"
    and "response_json env resp = Inr reply"
    and "reply_content reply = Inr content"
  shows "generate_features_from_figma env frame_names openai_api_key model temperature max_tokens log =
     (features_or_fallback env content,
      log @ [completion_request env frame_names openai_api_key model temperature max_tokens])"
  using assms(2-5) by (simp add: generate_sends [OF assms(1)] check_status_ok)

lemmas env_defs = canned_env_def canned_loads_def example_table_def reply_with_def login_content_def
  not_json_reply_def number_reply_def login_reply_def escaped_quote_def

text \<open>
  Claim C5.  For the empty list of frame names the generator returns the empty list and
  leaves the list of issued requests as it was, whatever the environment: the completion
  endpoint is not contacted.
\<close>

theorem generate_empty_names:
  "generate_features_from_figma env [] openai_api_key model temperature max_tokens log = (Inr [], log)"
  by (simp add: generate_features_from_figma_def)

lemma char_of_digit:
  "char_of (48::nat) = CHR ''0''" "char_of (49::nat) = CHR ''1''" "char_of (50::nat) = CHR ''2''"
  "char_of (51::nat) = CHR ''3''" "char_of (52::nat) = CHR ''4''" "char_of (53::nat) = CHR ''5''"
  "char_of (54::nat) = CHR ''6''" "char_of (55::nat) = CHR ''7''" "char_of (56::nat) = CHR ''8''"
  "char_of (57::nat) = CHR ''9''"
  by code_simp+

text \<open>
  Claim C7.  For a non-empty list of frame names the generator issues exactly one request,
  a POST to the completion endpoint.  Its body is the serialised dict with the given model
  identifier, temperature and maximal output length, with \<^verbatim>\<open>n\<close> equal to one, and with
  two messages: the fixed system message, then one user message whose content is the
  fixed text that asks for a JSON array whose elements have the fields \<^verbatim>\<open>title\<close> and
  \<^verbatim>\<open>description\<close>, the heading, and one line \<^verbatim>\<open>- name\<close> for each frame name, in order.
\<close>

theorem generate_request_body:
  assumes "frame_names \<noteq> []"
  shows "snd (generate_features_from_figma env frame_names openai_api_key model temperature
                max_tokens log) =
     log @ [\<lparr>verb = POST, url = ''https://api.openai.com/v1/chat/completions'',
        headers = [(''Authorization'', ''Bearer '' @ openai_api_key),
                   (''Content-Type'', ''application/json'')],
        data = Some (json_dumps env (JObj
          [(''model'', JStr model),
           (''temperature'', JFloat temperature),
           (''max_tokens'', JInt max_tokens),
           (''messages'', JArr
              [JObj [(''role'', JStr ''system''),
                     (''content'', JStr ''You are a helpful product manager.'')],
               JObj [(''role'', JStr ''user''),
                     (''content'', JStr (
                        ''The following is a list of design sections extracted from a Figma '' @
                        ''file.  For each section, suggest a concise feature title and a short '' @
                        ''description (one sentence) suitable for inclusion in a product '' @
                        ''requirements document.  Respond with a JSON array where each element '' @
                        ''has 'title' and 'description' fields.\<newline>'' @
                        ''\<newline>Design sections:\<newline>'' @
                        concat (map (\<lambda>name. ''- '' @ name @ ''\<newline>'') frame_names)))]]),
           (''n'', JInt 1)]))\<rparr>]"
proof -
  have "join ''\<newline>'' (map bullet frame_names) @ ''\<newline>''
          = concat (map (\<lambda>name. ''- '' @ name @ ''\<newline>'') frame_names)"
    using assms by (simp add: join_lines bullet_def comp_def)
  then show ?thesis
    by (simp add: generate_sends [OF assms] completion_request_def completion_url_def
        completion_headers_def completion_body_def system_message_def user_message_def
        build_prompt_def framing_text_def)
qed

text \<open>
  The request for the names \<^verbatim>\<open>Login\<close> and \<^verbatim>\<open>Sign up\<close>, in an environment whose
  serialiser writes the body out: the text on the wire.
\<close>

theorem generate_request_body_example:
  \<open>snd (generate_features_from_figma wire_env [''Login'', ''Sign up''] ''sk'' ''gpt-4''
          0x3FC999999999999A 512 []) =
     [\<lparr>verb = POST, url = ''https://api.openai.com/v1/chat/completions'',
        headers = [(''Authorization'', ''Bearer sk''), (''Content-Type'', ''application/json'')],
        data = Some (
          ''{"model": "gpt-4", "temperature": 0.2, "max_tokens": 512, "messages": ['' @
          ''{"role": "system", "content": "You are a helpful product manager."}, '' @
          ''{"role": "user", "content": "'' @
          ''The following is a list of design sections extracted from a Figma '' @
          ''file.  For each section, suggest a concise feature title and a short '' @
          ''description (one sentence) suitable for inclusion in a product '' @
          ''requirements document.  Respond with a JSON array where each element '' @
          ''has 'title' and 'description' fields.'' @ escaped_newline @ escaped_newline @
          ''Design sections:'' @ escaped_newline @
          ''- Login'' @ escaped_newline @
          ''- Sign up'' @ escaped_newline @
          ''"}], "n": 1}'')\<rparr>]\<close>
proof -
  have ne: "[''Login'', ''Sign up''] \<noteq> []" by simp
  have d: "json_dumps wire_env = render_json"
    by (simp add: wire_env_def canned_env_def)
  from generate_request_body [OF ne, of wire_env "''sk''" "''gpt-4''" "0x3FC999999999999A" 512 "[]"]
  show ?thesis
    by (simp add: d quoted_def escape_char_def show_int_def show_float_def escaped_newline_def
        char_of_digit)
qed

lemma features_not_json:
  "json_loads env content = Inl JSONDecodeError \<Longrightarrow>
   features_or_fallback env (JStr content) = Inr [model_response (JStr content)]"
  by (simp add: features_or_fallback_def parse_features_def py_json_loads_def)

lemma features_array:
  "json_loads env content = Inr (JArr items) \<Longrightarrow>
   features_or_fallback env (JStr content) = Inr (map feature_of (filter is_dict items))"
  by (simp add: features_or_fallback_def parse_features_def py_json_loads_def py_iter_def)

lemma features_number:
  "json_loads env content = Inr (JInt n) \<Longrightarrow>
   features_or_fallback env (JStr content) = Inl TypeError"
  by (simp add: features_or_fallback_def parse_features_def py_json_loads_def py_iter_def)

text \<open>
  What the \<^verbatim>\<open>except\<close> clause covers.  When the service answers with a status that passes
  the check and the content of the first choice is a string on which \<^verbatim>\<open>json.loads\<close>
  raises \<^verbatim>\<open>JSONDecodeError\<close>, the generator does not raise: it returns exactly one
  record, with the title \<^verbatim>\<open>Model response\<close> and the raw content as description.
\<close>

theorem generate_not_json:
  assumes "frame_names \<noteq> []"
    and "http_send env log
           (completion_request env frame_names openai_api_key model temperature max_tokens) = Inr resp"
    and "ok resp"
    and "response_json env resp = Inr reply"
    and "reply_content reply = Inr (JStr content)"
    and "json_loads env content = Inl JSONDecodeError"
  shows "generate_features_from_figma env frame_names openai_api_key model temperature max_tokens log =
     (Inr [JObj [(''title'', JStr ''Model response''), (''description'', JStr content)]],
      log @ [completion_request env frame_names openai_api_key model temperature max_tokens])"
  using generate_content [OF assms(1-5)] features_not_json [OF assms(6)]
  by (simp add: model_response_def)

text \<open>The example of the specification: the content \<^verbatim>\<open>not json\<close>.\<close>

theorem generate_not_json_example:
  "generate_features_from_figma (canned_env example_table 200 not_json_reply)
      [''Login''] ''sk'' default_model default_temperature default_max_tokens [] =
     (Inr [JObj [(''title'', JStr ''Model response''), (''description'', JStr ''not json'')]],
      [completion_request (canned_env example_table 200 not_json_reply)
         [''Login''] ''sk'' default_model default_temperature default_max_tokens])"
proof -
  let ?env = "canned_env example_table 200 not_json_reply"
  let ?resp = "\<lparr>status_code = 200, body = not_json_reply\<rparr>"
  have 1: "[''Login''] \<noteq> []" by simp
  have 2: "http_send ?env []
      (completion_request ?env [''Login''] ''sk'' default_model default_temperature default_max_tokens)
      = Inr ?resp"
    by (simp add: canned_env_def)
  have 3: "ok ?resp" by (simp add: ok_iff)
  have 4: "response_json ?env ?resp = Inr (reply_with (JStr ''not json''))"
    by (simp add: response_json_def env_defs)
  have 5: "reply_content (reply_with (JStr ''not json'')) = Inr (JStr ''not json'')"
    by (simp add: reply_content_def reply_with_def py_get_def py_first_def)
  have 6: "json_loads ?env ''not json'' = Inl JSONDecodeError"
    by (simp add: env_defs)
  from generate_not_json [OF 1 2 3 4 5 6] show ?thesis by simp
qed

lemmas lenient_defs = canned_env_def canned_loads_def lenient_table_def reply_with_def
  nan_reply_def nan_list_reply_def

text \<open>
  Claim C2.  A content that is not valid JSON does not always give the one record
  \<^verbatim>\<open>Model response\<close>.  The text \<^verbatim>\<open>NaN\<close> is not JSON, \<^verbatim>\<open>json.loads\<close> returns a float
  for it without raising, and the generator then raises \<^verbatim>\<open>TypeError\<close> when it iterates
  the float.  The text \<^verbatim>\<open>[NaN]\<close> is not JSON either; it parses to a list without
  objects, and the generator returns the empty list.
\<close>

theorem generate_nan_content:
  "json_loads (canned_env lenient_table 200 nan_reply) ''NaN'' = Inr (JFloat 0x7FF8000000000000) \<and>
   generate_features_from_figma (canned_env lenient_table 200 nan_reply) [''Login''] ''sk''
       default_model default_temperature default_max_tokens [] =
     (Inl TypeError,
      [completion_request (canned_env lenient_table 200 nan_reply) [''Login''] ''sk''
         default_model default_temperature default_max_tokens]) \<and>
   json_loads (canned_env lenient_table 200 nan_list_reply) ''[NaN]''
     = Inr (JArr [JFloat 0x7FF8000000000000]) \<and>
   generate_features_from_figma (canned_env lenient_table 200 nan_list_reply) [''Login''] ''sk''
       default_model default_temperature default_max_tokens [] =
     (Inr [],
      [completion_request (canned_env lenient_table 200 nan_list_reply) [''Login''] ''sk''
         default_model default_temperature default_max_tokens])"
proof -
  let ?e = "canned_env lenient_table 200 nan_reply"
  let ?f = "canned_env lenient_table 200 nan_list_reply"
  have c: "reply_content (reply_with (JStr s)) = Inr (JStr s)" for s
    by (simp add: reply_content_def reply_with_def py_get_def py_first_def)
  have 1: "json_loads ?e ''NaN'' = Inr (JFloat 0x7FF8000000000000)"
    by (simp add: lenient_defs)
  have s1: "http_send ?e [] (completion_request ?e [''Login''] ''sk''
          default_model default_temperature default_max_tokens) =
     Inr \<lparr>status_code = 200, body = nan_reply\<rparr>"
    by (simp add: canned_env_def)
  have r1: "response_json ?e \<lparr>status_code = 200, body = nan_reply\<rparr> = Inr (reply_with (JStr ''NaN''))"
    by (simp add: response_json_def lenient_defs)
  have f1: "features_or_fallback ?e (JStr ''NaN'') = Inl TypeError"
    by (simp add: features_or_fallback_def parse_features_def py_json_loads_def py_iter_def 1)
  have 2: "generate_features_from_figma ?e [''Login''] ''sk''
       default_model default_temperature default_max_tokens [] =
     (Inl TypeError,
      [completion_request ?e [''Login''] ''sk'' default_model default_temperature default_max_tokens])"
    by (simp add: generate_sends s1 check_status_def ok_iff r1 c f1)
  have 3: "json_loads ?f ''[NaN]'' = Inr (JArr [JFloat 0x7FF8000000000000])"
    by (simp add: lenient_defs)
  have s2: "http_send ?f [] (completion_request ?f [''Login''] ''sk''
          default_model default_temperature default_max_tokens) =
     Inr \<lparr>status_code = 200, body = nan_list_reply\<rparr>"
    by (simp add: canned_env_def)
  have r2: "response_json ?f \<lparr>status_code = 200, body = nan_list_reply\<rparr>
      = Inr (reply_with (JStr ''[NaN]''))"
    by (simp add: response_json_def lenient_defs)
  have f2: "features_or_fallback ?f (JStr ''[NaN]'') = Inr []"
    by (simp add: features_or_fallback_def parse_features_def py_json_loads_def py_iter_def 3
        is_dict_def)
  have 4: "generate_features_from_figma ?f [''Login''] ''sk''
       default_model default_temperature default_max_tokens [] =
     (Inr [],
      [completion_request ?f [''Login''] ''sk'' default_model default_temperature default_max_tokens])"
    by (simp add: generate_sends s2 check_status_def ok_iff r2 c f2)
  from 1 2 3 4 show ?thesis by simp
qed

text \<open>
  Claim C3.  When the content of the first choice parses as an array, the generator keeps
  exactly the elements that are objects, in the order of the array, and each record of the
  result has the two keys \<^verbatim>\<open>title\<close> and \<^verbatim>\<open>description\<close>: the value of the object where it
  has the key, otherwise \<^verbatim>\<open>Untitled Feature\<close> and the empty string.
\<close>

theorem generate_array_reply:
  assumes "frame_names \<noteq> []"
    and "http_send env log
           (completion_request env frame_names openai_api_key model temperature max_tokens) = Inr resp"
    and "ok resp"
    and "response_json env resp = Inr reply"
    and "reply_content reply = Inr (JStr content)"
    and "json_loads env content = Inr (JArr items)"
  shows "generate_features_from_figma env frame_names openai_api_key model temperature max_tokens log =
     (Inr (map (\<lambda>item.
             JObj [(''title'', case lookup item ''title'' of
                                 Some v \<Rightarrow> v | None \<Rightarrow> JStr ''Untitled Feature''),
                   (''description'', case lookup item ''description'' of
                                 Some v \<Rightarrow> v | None \<Rightarrow> JStr '''')])
           (filter is_dict items)),
      log @ [completion_request env frame_names openai_api_key model temperature max_tokens])"
proof -
  have "feature_of = (\<lambda>item.
             JObj [(''title'', case lookup item ''title'' of
                                 Some v \<Rightarrow> v | None \<Rightarrow> JStr ''Untitled Feature''),
                   (''description'', case lookup item ''description'' of
                                 Some v \<Rightarrow> v | None \<Rightarrow> JStr '''')])"
    by (rule ext) (simp add: feature_of_def)
  with generate_content [OF assms(1-5)] features_array [OF assms(6)]
  show ?thesis by simp
qed

text \<open>The example of the specification: an object with a title only.\<close>

theorem generate_login_flow:
  "generate_features_from_figma (canned_env example_table 200 login_reply)
      [''Login''] ''sk'' default_model default_temperature default_max_tokens [] =
     (Inr [JObj [(''title'', JStr ''Login flow''), (''description'', JStr '''')]],
      [completion_request (canned_env example_table 200 login_reply)
         [''Login''] ''sk'' default_model default_temperature default_max_tokens])"
proof -
  let ?env = "canned_env example_table 200 login_reply"
  let ?resp = "\<lparr>status_code = 200, body = login_reply\<rparr>"
  have 1: "[''Login''] \<noteq> []" by simp
  have 2: "http_send ?env []
      (completion_request ?env [''Login''] ''sk'' default_model default_temperature default_max_tokens)
      = Inr ?resp"
    by (simp add: canned_env_def)
  have 3: "ok ?resp" by (simp add: ok_iff)
  have 4: "response_json ?env ?resp = Inr (reply_with (JStr login_content))"
    by (simp add: response_json_def canned_env_def canned_loads_def example_table_def
        not_json_reply_def number_reply_def login_reply_def escaped_quote_def)
  have 5: "reply_content (reply_with (JStr login_content)) = Inr (JStr login_content)"
    by (simp add: reply_content_def reply_with_def py_get_def py_first_def)
  have 6: "json_loads ?env login_content = Inr (JArr [JObj [(''title'', JStr ''Login flow'')]])"
    by (simp add: env_defs)
  from generate_array_reply [OF 1 2 3 4 5 6] show ?thesis
    by (simp add: is_dict_def lookup_def)
qed

text \<open>
  Claim C9.  When the content of the first choice parses as a number, as the content
  \<^verbatim>\<open>42\<close> does, the generator raises \<^verbatim>\<open>TypeError\<close>: the parse result is iterated, a
  number is not iterable, and the \<^verbatim>\<open>try\<close> statement catches \<^verbatim>\<open>JSONDecodeError\<close> only.
\<close>

theorem generate_number_reply:
  assumes "frame_names \<noteq> []"
    and "http_send env log
           (completion_request env frame_names openai_api_key model temperature max_tokens) = Inr resp"
    and "ok resp"
    and "response_json env resp = Inr reply"
    and "reply_content reply = Inr (JStr content)"
    and "json_loads env content = Inr (JInt n)"
  shows "generate_features_from_figma env frame_names openai_api_key model temperature max_tokens log =
     (Inl TypeError,
      log @ [completion_request env frame_names openai_api_key model temperature max_tokens])"
  using generate_content [OF assms(1-5)] features_number [OF assms(6)] by simp

text \<open>The content \<^verbatim>\<open>42\<close>.\<close>

theorem generate_reply_42:
  "json_loads (canned_env example_table 200 number_reply) ''42'' = Inr (JInt 42) \<and>
   generate_features_from_figma (canned_env example_table 200 number_reply)
      [''Login''] ''sk'' default_model default_temperature default_max_tokens [] =
     (Inl TypeError,
      [completion_request (canned_env example_table 200 number_reply)
         [''Login''] ''sk'' default_model default_temperature default_max_tokens])"
proof -
  let ?env = "canned_env example_table 200 number_reply"
  let ?resp = "\<lparr>status_code = 200, body = number_reply\<rparr>"
  have 1: "[''Login''] \<noteq> []" by simp
  have 2: "http_send ?env []
      (completion_request ?env [''Login''] ''sk'' default_model default_temperature default_max_tokens)
      = Inr ?resp"
    by (simp add: canned_env_def)
  have 3: "ok ?resp" by (simp add: ok_iff)
  have 4: "response_json ?env ?resp = Inr (reply_with (JStr ''42''))"
    by (simp add: response_json_def env_defs)
  have 5: "reply_content (reply_with (JStr ''42'')) = Inr (JStr ''42'')"
    by (simp add: reply_content_def reply_with_def py_get_def py_first_def)
  have 6: "json_loads ?env ''42'' = Inr (JInt 42)"
    by (simp add: env_defs)
  from generate_number_reply [OF 1 2 3 4 5 6] 6 show ?thesis by simp
qed

section \<open>Properties of the transport\<close>

lemma get_file_sends:
  "get_file env self file_key log =
     ((case http_send env log (figma_request self file_key) of
         Inl e \<Rightarrow> Inl e
       | Inr resp \<Rightarrow>
           (case check_status resp of
              Inl e \<Rightarrow> Inl e
            | Inr _ \<Rightarrow> response_json env resp)),
      log @ [figma_request self file_key])"
  by (simp add: get_file_def requests_get_def figma_request_def FigmaClient_headers_def Let_def
      split: sum.splits)

text \<open>
  What the status check does.  For a response with a client or server error status (400
  to 599), \<^verbatim>\<open>get_file\<close> and the generator raise \<^verbatim>\<open>HTTPError\<close>, which carries the
  response; exactly one request has been issued, so nothing is retried and nothing is
  swallowed.  On a success status (200 to 299) \<^verbatim>\<open>get_file\<close> returns what parsing the
  body gives.
\<close>

theorem http_error_propagates:
  "(http_send env log (figma_request self file_key) = Inr resp \<and>
    400 \<le> status_code resp \<and> status_code resp < 600
      \<longrightarrow> get_file env self file_key log =
            (Inl (HTTPError resp), log @ [figma_request self file_key])) \<and>
   (frame_names \<noteq> [] \<and>
    http_send env log
      (completion_request env frame_names openai_api_key model temperature max_tokens) = Inr resp \<and>
    400 \<le> status_code resp \<and> status_code resp < 600
      \<longrightarrow> generate_features_from_figma env frame_names openai_api_key model temperature
              max_tokens log =
            (Inl (HTTPError resp),
             log @ [completion_request env frame_names openai_api_key model temperature
                      max_tokens])) \<and>
   (http_send env log (figma_request self file_key) = Inr resp \<and>
    200 \<le> status_code resp \<and> status_code resp < 300
      \<longrightarrow> get_file env self file_key log =
            (json_loads env (body resp), log @ [figma_request self file_key]))"
proof (intro conjI impI)
  assume "http_send env log (figma_request self file_key) = Inr resp \<and>
    400 \<le> status_code resp \<and> status_code resp < 600"
  then show "get_file env self file_key log =
            (Inl (HTTPError resp), log @ [figma_request self file_key])"
    by (simp add: get_file_sends check_status_error)
next
  assume a: "frame_names \<noteq> [] \<and>
    http_send env log
      (completion_request env frame_names openai_api_key model temperature max_tokens) = Inr resp \<and>
    400 \<le> status_code resp \<and> status_code resp < 600"
  then have "frame_names \<noteq> []" by simp
  from generate_sends [OF this] a
  show "generate_features_from_figma env frame_names openai_api_key model temperature
              max_tokens log =
            (Inl (HTTPError resp),
             log @ [completion_request env frame_names openai_api_key model temperature
                      max_tokens])"
    by (simp add: check_status_error)
next
  assume "http_send env log (figma_request self file_key) = Inr resp \<and>
    200 \<le> status_code resp \<and> status_code resp < 300"
  then show "get_file env self file_key log =
            (json_loads env (body resp), log @ [figma_request self file_key])"
    by (simp add: get_file_sends check_status_ok ok_iff response_json_def)
qed

text \<open>The statuses 404, 500 and 200.\<close>

theorem http_error_examples:
  "get_file (canned_env example_table 404 ''{}'') (FigmaClient_init ''figd'' default_base_url)
       ''KEY'' [] =
     (Inl (HTTPError \<lparr>status_code = 404, body = ''{}''\<rparr>),
      [figma_request (FigmaClient_init ''figd'' default_base_url) ''KEY'']) \<and>
   generate_features_from_figma (canned_env example_table 500 ''{}'') [''Login''] ''sk''
       default_model default_temperature default_max_tokens [] =
     (Inl (HTTPError \<lparr>status_code = 500, body = ''{}''\<rparr>),
      [completion_request (canned_env example_table 500 ''{}'') [''Login''] ''sk''
         default_model default_temperature default_max_tokens]) \<and>
   get_file (canned_env example_table 200 ''{}'') (FigmaClient_init ''figd'' default_base_url)
       ''KEY'' [] =
     (Inr (JObj []), [figma_request (FigmaClient_init ''figd'' default_base_url) ''KEY''])"
proof -
  let ?c = "FigmaClient_init ''figd'' default_base_url"
  let ?e4 = "canned_env example_table 404 ''{}''"
  let ?e5 = "canned_env example_table 500 ''{}''"
  let ?e2 = "canned_env example_table 200 ''{}''"
  have a: "http_send ?e4 [] (figma_request ?c ''KEY'') = Inr \<lparr>status_code = 404, body = ''{}''\<rparr> \<and>
      400 \<le> status_code \<lparr>status_code = 404, body = ''{}''\<rparr> \<and>
      status_code \<lparr>status_code = 404, body = ''{}''\<rparr> < 600"
    by (simp add: canned_env_def)
  have b: "[''Login''] \<noteq> [] \<and>
      http_send ?e5 [] (completion_request ?e5 [''Login''] ''sk'' default_model
         default_temperature default_max_tokens) = Inr \<lparr>status_code = 500, body = ''{}''\<rparr> \<and>
      400 \<le> status_code \<lparr>status_code = 500, body = ''{}''\<rparr> \<and>
      status_code \<lparr>status_code = 500, body = ''{}''\<rparr> < 600"
    by (simp add: canned_env_def)
  have c: "http_send ?e2 [] (figma_request ?c ''KEY'') = Inr \<lparr>status_code = 200, body = ''{}''\<rparr> \<and>
      200 \<le> status_code \<lparr>status_code = 200, body = ''{}''\<rparr> \<and>
      status_code \<lparr>status_code = 200, body = ''{}''\<rparr> < 300"
    by (simp add: canned_env_def)
  have d: "json_loads ?e2 ''{}'' = Inr (JObj [])"
    by (simp add: env_defs)
  note t = http_error_propagates
  from t [of ?e4 "[]" ?c "''KEY''" "\<lparr>status_code = 404, body = ''{}''\<rparr>"] a
  have 1: "get_file ?e4 ?c ''KEY'' [] =
     (Inl (HTTPError \<lparr>status_code = 404, body = ''{}''\<rparr>), [figma_request ?c ''KEY''])"
    by simp
  from t [of ?e5 "[]" _ _ "\<lparr>status_code = 500, body = ''{}''\<rparr>" "[''Login'']" "''sk''"
      default_model default_temperature default_max_tokens] b
  have 2: "generate_features_from_figma ?e5 [''Login''] ''sk''
       default_model default_temperature default_max_tokens [] =
     (Inl (HTTPError \<lparr>status_code = 500, body = ''{}''\<rparr>),
      [completion_request ?e5 [''Login''] ''sk''
         default_model default_temperature default_max_tokens])"
    by simp
  from t [of ?e2 "[]" ?c "''KEY''" "\<lparr>status_code = 200, body = ''{}''\<rparr>"] c d
  have 3: "get_file ?e2 ?c ''KEY'' [] = (Inr (JObj []), [figma_request ?c ''KEY''])"
    by simp
  from 1 2 3 show ?thesis by simp
qed

text \<open>
  Claim C4.  A status outside 200 to 299 does not always raise.  The status 300 is not an
  error status for \<^verbatim>\<open>Response.ok\<close>, and the library does not follow it as a redirect, so
  \<^verbatim>\<open>get_file\<close> parses the body and returns it, where its docstring promises
  \<^verbatim>\<open>HTTPError\<close> for every response other than 200; the generator likewise goes on to
  read the reply.
\<close>

theorem status_300_not_raised:
  "http_send (canned_env example_table 300 ''{}'') []
       (figma_request (FigmaClient_init ''figd'' default_base_url) ''KEY'') =
     Inr \<lparr>status_code = 300, body = ''{}''\<rparr> \<and>
   get_file (canned_env example_table 300 ''{}'') (FigmaClient_init ''figd'' default_base_url)
       ''KEY'' [] =
     (Inr (JObj []), [figma_request (FigmaClient_init ''figd'' default_base_url) ''KEY'']) \<and>
   http_send (canned_env example_table 300 not_json_reply) []
       (completion_request (canned_env example_table 300 not_json_reply) [''Login''] ''sk''
          default_model default_temperature default_max_tokens) =
     Inr \<lparr>status_code = 300, body = not_json_reply\<rparr> \<and>
   generate_features_from_figma (canned_env example_table 300 not_json_reply) [''Login''] ''sk''
       default_model default_temperature default_max_tokens [] =
     (Inr [JObj [(''title'', JStr ''Model response''), (''description'', JStr ''not json'')]],
      [completion_request (canned_env example_table 300 not_json_reply) [''Login''] ''sk''
          default_model default_temperature default_max_tokens])"
proof -
  let ?c = "FigmaClient_init ''figd'' default_base_url"
  let ?e = "canned_env example_table 300 ''{}''"
  let ?g = "canned_env example_table 300 not_json_reply"
  have 1: "http_send ?e [] (figma_request ?c ''KEY'') = Inr \<lparr>status_code = 300, body = ''{}''\<rparr>"
    by (simp add: canned_env_def)
  have 2: "get_file ?e ?c ''KEY'' [] = (Inr (JObj []), [figma_request ?c ''KEY''])"
    by (simp add: get_file_sends check_status_def ok_iff response_json_def env_defs)
  have 3: "http_send ?g [] (completion_request ?g [''Login''] ''sk''
          default_model default_temperature default_max_tokens) =
     Inr \<lparr>status_code = 300, body = not_json_reply\<rparr>"
    by (simp add: canned_env_def)
  have r: "response_json ?g \<lparr>status_code = 300, body = not_json_reply\<rparr>
             = Inr (reply_with (JStr ''not json''))"
    by (simp add: response_json_def env_defs)
  have c: "reply_content (reply_with (JStr ''not json'')) = Inr (JStr ''not json'')"
    by (simp add: reply_content_def reply_with_def py_get_def py_first_def)
  have f: "features_or_fallback ?g (JStr ''not json'') = Inr [model_response (JStr ''not json'')]"
    by (rule features_not_json) (simp add: env_defs)
  have 4: "generate_features_from_figma ?g [''Login''] ''sk''
       default_model default_temperature default_max_tokens [] =
     (Inr [JObj [(''title'', JStr ''Model response''), (''description'', JStr ''not json'')]],
      [completion_request ?g [''Login''] ''sk''
          default_model default_temperature default_max_tokens])"
    by (simp add: generate_sends 3 check_status_def ok_iff r c f model_response_def)
  from 1 2 3 4 show ?thesis by simp
qed

section \<open>Properties of the command line\<close>

text \<open>
  Claim C8.  When one of \<^verbatim>\<open>FIGMA_TOKEN\<close>, \<^verbatim>\<open>FIGMA_FILE_KEY\<close> and \<^verbatim>\<open>OPENAI_API_KEY\<close> is
  absent, \<^verbatim>\<open>main\<close> prints the guidance message and returns normally; the list of issued
  requests is unchanged, so neither service is contacted.
\<close>

theorem main_missing_environment:
  assumes "environ ''FIGMA_TOKEN'' = None \<or> environ ''FIGMA_FILE_KEY'' = None \<or>
           environ ''OPENAI_API_KEY'' = None"
  shows "main env environ (out, log) = (Inr (), out @ [guidance], log)"
  using assms by (auto simp: main_def is_set_def Let_def)

text \<open>A process that has the token only.\<close>

theorem main_token_only:
  "main (canned_env example_table 200 ''{}'') token_only ([], []) =
     (Inr (),
      [''FIGMA_TOKEN, FIGMA_FILE_KEY and OPENAI_API_KEY environment variables must be set to run this example.''],
      [])"
proof -
  have "token_only ''FIGMA_TOKEN'' = None \<or> token_only ''FIGMA_FILE_KEY'' = None \<or>
           token_only ''OPENAI_API_KEY'' = None"
    by (simp add: token_only_def)
  from main_missing_environment [OF this, of "canned_env example_table 200 ''{}''" "[]" "[]"]
  show ?thesis by (simp add: guidance_def)
qed

end
